theory Spec2Isabelle
  imports Main
begin

section \<open>The PocketGNU service worker: data model\<close>

text \<open>
  The development follows the service worker script (constants, \<open>PerformanceMonitor\<close>,
  the install, fetch and message listeners, the five strategy handlers,
  \<open>prefetchResources\<close> and \<open>performCacheCleanup\<close>).

  The worker's code is a sequence of calls into the browser (Cache Storage, Fetch,
  \<open>postMessage\<close>). The browser is modelled by a state record that is passed explicitly:
  the cache partitions, the metrics counters, a log of the network fetches and cache writes
  the worker has issued, and a flag for \<open>self.skipWaiting()\<close>. The network is a parameter:
  a function giving, for each request, the outcome of \<open>fetch\<close> (a rejection or a
  response). A promise is modelled by the value it settles to: \<open>Inl e\<close> for a rejection
  with reason \<open>e\<close>, \<open>Inr v\<close> for fulfilment with \<open>v\<close>. Operations the source starts
  without awaiting them (\<open>cache.put\<close>, the background refresh) are carried out, or
  refused by the browser, at the point where they are issued. Console output is not modelled.
\<close>

datatype js_error = Error string | TypeError string

fun message :: "js_error \<Rightarrow> string" where
  "message (Error m) = m"
| "message (TypeError m) = m"

text \<open>A request: \<open>request.method\<close> and \<open>request.url\<close>.\<close>

record request =
  http_method :: string
  url :: string

record response =
  status :: nat
  statusText :: string
  headers :: "(string \<times> string) list"
  body :: string

text \<open>\<open>response.ok\<close>: the status is in the range 200 to 299.\<close>

definition ok :: "response \<Rightarrow> bool" where
  "ok r = (200 \<le> status r \<and> status r \<le> 299)"

text \<open>\<open>headers.get(name)\<close>: the value of the header, or \<open>null\<close> (\<open>None\<close>).\<close>

definition headers_get :: "response \<Rightarrow> string \<Rightarrow> string option" where
  "headers_get r name = map_of (headers r) name"

text \<open>
  A cache partition holds (request URL, response) pairs in insertion order; the cache
  storage holds (name, partition) pairs in creation order.
\<close>

type_synonym cache = "(string \<times> response) list"
type_synonym cache_storage = "(string \<times> cache) list"
type_synonym network = "request \<Rightarrow> js_error + response"

record metrics =
  cacheHits :: nat
  cacheMisses :: nat
  networkRequests :: nat
  errors :: nat

text \<open>
  What the worker has asked of the browser: a fetch, a \<open>put\<close> that stored its
  response in a partition, and a \<open>put\<close> that the browser refused (its promise is
  rejected and nothing is stored).
\<close>

datatype effect =
  NetFetch request
| CachePut string string response
| CachePutRejected string string response

record sw_state =
  caches :: cache_storage
  monitor :: metrics
  effects :: "effect list"
  skipWaitingCalled :: bool

subsection \<open>Constants of the script\<close>

definition STATIC_CACHE :: string where
  "STATIC_CACHE = ''pocketgnu-static-v1.0.0''"

definition DYNAMIC_CACHE :: string where
  "DYNAMIC_CACHE = ''pocketgnu-dynamic-v1.0.0''"

definition CRITICAL_RESOURCES :: "string list" where
  "CRITICAL_RESOURCES =
     [''/'', ''/index.html'', ''/css/critical.css'', ''/js/errorHandler.js'',
      ''/js/utils.js'', ''/js/scripts.js'']"

definition STATIC_RESOURCES :: "string list" where
  "STATIC_RESOURCES =
     [''/css/styles.css'',
      ''https://fonts.googleapis.com/css2?family=Inter:wght@300;400;500;600;700&display=swap'']"

type_synonym strategy = string

definition CACHE_FIRST :: strategy where
  "CACHE_FIRST = ''cache-first''"

definition NETWORK_FIRST :: strategy where
  "NETWORK_FIRST = ''network-first''"

definition STALE_WHILE_REVALIDATE :: strategy where
  "STALE_WHILE_REVALIDATE = ''stale-while-revalidate''"

definition NETWORK_ONLY :: strategy where
  "NETWORK_ONLY = ''network-only''"

definition CACHE_ONLY :: strategy where
  "CACHE_ONLY = ''cache-only''"

subsection \<open>URL patterns\<close>

text \<open>
  The script uses regular expressions of two shapes only, none with flags:
  \<^item> \<open>/\.(?:e1|...|en)$/\<close>, written \<open>DotExtAtEnd [e1, ..., en]\<close>: the text ends with a
    dot followed by one of the alternatives;
  \<^item> \<open>/^lit/\<close> for a literal text \<open>lit\<close>, written \<open>AtStart lit\<close>: the text starts
    with \<open>lit\<close>.
\<close>

datatype regexp = DotExtAtEnd "string list" | AtStart string

definition startsWith :: "string \<Rightarrow> string \<Rightarrow> bool" where
  "startsWith s p = (take (length p) s = p)"

definition endsWith :: "string \<Rightarrow> string \<Rightarrow> bool" where
  "endsWith s p = (length p \<le> length s \<and> drop (length s - length p) s = p)"

fun regexp_test :: "regexp \<Rightarrow> string \<Rightarrow> bool" where
  "regexp_test (DotExtAtEnd exts) s = list_ex (\<lambda>e. endsWith s (CHR ''.'' # e)) exts"
| "regexp_test (AtStart lit) s = startsWith s lit"

definition CACHE_PATTERNS :: "(regexp \<times> strategy) list" where
  "CACHE_PATTERNS =
     [(DotExtAtEnd [''js'', ''css''], STALE_WHILE_REVALIDATE),
      (DotExtAtEnd [''png'', ''jpg'', ''jpeg'', ''svg'', ''gif'', ''webp''], CACHE_FIRST),
      (AtStart ''https://fonts.googleapis.com'', STALE_WHILE_REVALIDATE),
      (AtStart ''https://fonts.gstatic.com'', CACHE_FIRST)]"

section \<open>Classification\<close>

text \<open>The \<open>for ... of\<close> loop of \<open>getCacheStrategy\<close>, over the rest of the pattern list.\<close>

fun getCacheStrategy_loop :: "(regexp \<times> strategy) list \<Rightarrow> string \<Rightarrow> strategy" where
  "getCacheStrategy_loop [] u = NETWORK_FIRST"
| "getCacheStrategy_loop ((pattern, strategy) # rest) u =
     (if regexp_test pattern u then strategy else getCacheStrategy_loop rest u)"

definition getCacheStrategy :: "string \<Rightarrow> strategy" where
  "getCacheStrategy u = getCacheStrategy_loop CACHE_PATTERNS u"

section \<open>PerformanceMonitor\<close>

definition recordCacheHit :: "sw_state \<Rightarrow> sw_state" where
  "recordCacheHit st = st\<lparr>monitor := (monitor st)\<lparr>cacheHits := cacheHits (monitor st) + 1\<rparr>\<rparr>"

definition recordCacheMiss :: "sw_state \<Rightarrow> sw_state" where
  "recordCacheMiss st = st\<lparr>monitor := (monitor st)\<lparr>cacheMisses := cacheMisses (monitor st) + 1\<rparr>\<rparr>"

definition recordNetworkRequest :: "sw_state \<Rightarrow> sw_state" where
  "recordNetworkRequest st =
     st\<lparr>monitor := (monitor st)\<lparr>networkRequests := networkRequests (monitor st) + 1\<rparr>\<rparr>"

definition recordError :: "js_error \<Rightarrow> sw_state \<Rightarrow> sw_state" where
  "recordError err st = st\<lparr>monitor := (monitor st)\<lparr>errors := errors (monitor st) + 1\<rparr>\<rparr>"

definition getMetrics :: "sw_state \<Rightarrow> metrics" where
  "getMetrics st = monitor st"

section \<open>The browser interfaces the worker calls\<close>

text \<open>
  \<open>cache.match\<close>, \<open>cache.delete\<close> and the write of \<open>cache.put\<close> on one
  partition. Entries are keyed by the request URL; a write replaces an entry of the same
  URL.
\<close>

definition cache_match :: "cache \<Rightarrow> string \<Rightarrow> response option" where
  "cache_match c u = map_of c u"

definition cache_delete :: "cache \<Rightarrow> string \<Rightarrow> cache" where
  "cache_delete c u = filter (\<lambda>entry. fst entry \<noteq> u) c"

definition cache_put :: "cache \<Rightarrow> string \<Rightarrow> response \<Rightarrow> cache" where
  "cache_put c u r = cache_delete c u @ [(u, r)]"

text \<open>\<open>caches.match\<close>: the match of the first partition, in creation order, that has one.\<close>

fun storage_match :: "cache_storage \<Rightarrow> string \<Rightarrow> response option" where
  "storage_match [] u = None"
| "storage_match ((name, c) # rest) u =
     (case cache_match c u of Some r \<Rightarrow> Some r | None \<Rightarrow> storage_match rest u)"

definition storage_open :: "cache_storage \<Rightarrow> string \<Rightarrow> cache_storage" where
  "storage_open s name = (if name \<in> set (map fst s) then s else s @ [(name, [])])"

definition storage_get :: "cache_storage \<Rightarrow> string \<Rightarrow> cache" where
  "storage_get s name = (case map_of s name of Some c \<Rightarrow> c | None \<Rightarrow> [])"

definition storage_update :: "cache_storage \<Rightarrow> string \<Rightarrow> (cache \<Rightarrow> cache) \<Rightarrow> cache_storage" where
  "storage_update s name f = map (\<lambda>(n, c). if n = name then (n, f c) else (n, c)) s"

definition caches_match :: "request \<Rightarrow> sw_state \<Rightarrow> response option" where
  "caches_match req st = storage_match (caches st) (url req)"

text \<open>\<open>caches.open(name)\<close> creates the partition when it does not exist.\<close>

definition caches_open :: "string \<Rightarrow> sw_state \<Rightarrow> sw_state" where
  "caches_open name st = st\<lparr>caches := storage_open (caches st) name\<rparr>"

text \<open>
  What the browser refuses to store. \<open>cache.put\<close> rejects its promise, and stores
  nothing, for a request that is not a GET request or whose URL is not an http or https
  URL, for a response of status 206 (partial content), and for a response whose
  \<open>Vary\<close> header has \<open>*\<close> among its comma-separated values. \<open>cache.add\<close> and
  \<open>cache.addAll\<close> refuse the same responses.
\<close>

fun split_commas :: "string \<Rightarrow> string list" where
  "split_commas [] = [[]]"
| "split_commas (c # cs) =
     (if c = CHR '','' then [] # split_commas cs
      else (case split_commas cs of [] \<Rightarrow> [[c]] | w # ws \<Rightarrow> (c # w) # ws))"

definition is_space :: "char \<Rightarrow> bool" where
  "is_space c = (c = CHR '' '' \<or> c = CHR 0x09)"

definition trim :: "string \<Rightarrow> string" where
  "trim s = rev (dropWhile is_space (rev (dropWhile is_space s)))"

definition vary_any :: "response \<Rightarrow> bool" where
  "vary_any r =
     (case headers_get r ''vary'' of
        None \<Rightarrow> False
      | Some v \<Rightarrow> ''*'' \<in> set (map trim (split_commas v)))"

definition response_storable :: "response \<Rightarrow> bool" where
  "response_storable r = (status r \<noteq> 206 \<and> \<not> vary_any r)"

text \<open>\<open>new URL(u).protocol\<close>: the scheme of an absolute, serialised URL with its colon.\<close>

definition URL_protocol :: "string \<Rightarrow> string" where
  "URL_protocol u = takeWhile (\<lambda>c. c \<noteq> CHR '':'') u @ '':''"

definition request_storable :: "request \<Rightarrow> bool" where
  "request_storable req =
     (http_method req = ''GET'' \<and>
      (URL_protocol (url req) = ''http:'' \<or> URL_protocol (url req) = ''https:''))"

text \<open>A write that the browser carries out, on the partition \<open>name\<close>.\<close>

definition put_stored :: "string \<Rightarrow> string \<Rightarrow> response \<Rightarrow> sw_state \<Rightarrow> sw_state" where
  "put_stored name u r st =
     (let st1 = caches_open name st
      in st1\<lparr>caches := storage_update (caches st1) name (\<lambda>c. cache_put c u r),
             effects := effects st1 @ [CachePut name u r]\<rparr>)"

text \<open>
  \<open>caches.open(name)\<close> followed by \<open>put(request, response.clone())\<close> on the result,
  as the handlers issue it: neither awaited nor caught, so that a refusal is an unhandled
  rejection that leaves the partition as it was.
\<close>

definition open_and_put :: "string \<Rightarrow> request \<Rightarrow> response \<Rightarrow> sw_state \<Rightarrow> sw_state" where
  "open_and_put name req r st =
     (if request_storable req \<and> response_storable r then put_stored name (url req) r st
      else (let st1 = caches_open name st
            in st1\<lparr>effects := effects st1 @ [CachePutRejected name (url req) r]\<rparr>))"

definition fetch :: "network \<Rightarrow> request \<Rightarrow> sw_state \<Rightarrow> (js_error + response) \<times> sw_state" where
  "fetch net req st = (net req, st\<lparr>effects := effects st @ [NetFetch req]\<rparr>)"

text \<open>
  \<open>cache.add(url)\<close> on the partition \<open>name\<close>: a GET fetch of the URL, rejected when
  the fetch fails, when the response is not \<open>ok\<close> and when the response is one the
  browser refuses to store; otherwise the response is stored. The URL text is the key as
  it is given: its resolution against the location of the worker (an http or https URL) is
  not modelled.
\<close>

definition cache_add :: "network \<Rightarrow> string \<Rightarrow> string \<Rightarrow> sw_state \<Rightarrow> (js_error + unit) \<times> sw_state" where
  "cache_add net name u st =
     (let req = \<lparr>http_method = ''GET'', url = u\<rparr>
      in case fetch net req st of
           (Inl err, st1) \<Rightarrow> (Inl err, st1)
         | (Inr r, st1) \<Rightarrow>
             if ok r \<and> response_storable r then (Inr (), put_stored name u r st1)
             else (Inl (TypeError ''Request failed''), st1))"

text \<open>
  \<open>cache.addAll(urls)\<close>: all the URLs are fetched; when every fetch gives an \<open>ok\<close>
  response that the browser can store, all of them are stored, otherwise the promise is
  rejected and nothing is stored.
\<close>

fun fetch_each :: "network \<Rightarrow> string list \<Rightarrow> sw_state \<Rightarrow> (js_error + response) list \<times> sw_state" where
  "fetch_each net [] st = ([], st)"
| "fetch_each net (u # us) st =
     (case fetch net \<lparr>http_method = ''GET'', url = u\<rparr> st of
        (r, st1) \<Rightarrow> (case fetch_each net us st1 of (rs, st2) \<Rightarrow> (r # rs, st2)))"

fun first_failure :: "(js_error + response) list \<Rightarrow> js_error option" where
  "first_failure [] = None"
| "first_failure (Inl err # rs) = Some err"
| "first_failure (Inr r # rs) =
     (if ok r \<and> response_storable r then first_failure rs
      else Some (TypeError ''Request failed''))"

fun put_each :: "string \<Rightarrow> string list \<Rightarrow> (js_error + response) list \<Rightarrow> sw_state \<Rightarrow> sw_state" where
  "put_each name (u # us) (Inr r # rs) st =
     put_each name us rs (put_stored name u r st)"
| "put_each name us rs st = st"

definition cache_addAll :: "network \<Rightarrow> string \<Rightarrow> string list \<Rightarrow> sw_state \<Rightarrow> (js_error + unit) \<times> sw_state" where
  "cache_addAll net name us st =
     (case fetch_each net us st of
        (rs, st1) \<Rightarrow>
          (case first_failure rs of
             Some err \<Rightarrow> (Inl err, st1)
           | None \<Rightarrow> (Inr (), put_each name us rs st1)))"

section \<open>The install listener\<close>

text \<open>
  \<open>STATIC_RESOURCES.map(url => cache.add(url).catch(err => ... null))\<close> under
  \<open>Promise.allSettled\<close>: every add is tried, a failure is logged and replaced by
  \<open>null\<close>, and the combined promise is fulfilled.
\<close>

fun preload :: "network \<Rightarrow> string \<Rightarrow> string list \<Rightarrow> sw_state \<Rightarrow> sw_state" where
  "preload net name [] st = st"
| "preload net name (u # us) st = preload net name us (snd (cache_add net name u st))"

text \<open>
  The value of \<open>install\<close> is the settlement of the promise the listener passes to
  \<open>event.waitUntil\<close>. Both members of the \<open>Promise.all\<close> are started; its rejection
  (only the first member can reject) goes to the \<open>catch\<close> handler, which logs, records
  the error and returns normally, so that the chained promise is fulfilled; its
  fulfilment goes to the \<open>then\<close> handler, which calls \<open>self.skipWaiting()\<close>.
\<close>

definition install :: "network \<Rightarrow> sw_state \<Rightarrow> (js_error + unit) \<times> sw_state" where
  "install net st =
     (case cache_addAll net STATIC_CACHE CRITICAL_RESOURCES (caches_open STATIC_CACHE st) of
        (critical, st1) \<Rightarrow>
          (let st2 = preload net DYNAMIC_CACHE STATIC_RESOURCES (caches_open DYNAMIC_CACHE st1)
           in case critical of
                Inr _ \<Rightarrow> (Inr (), st2\<lparr>skipWaitingCalled := True\<rparr>)
              | Inl err \<Rightarrow> (Inr (), recordError err st2)))"

section \<open>The strategy handlers\<close>

text \<open>
  A handler returns the settlement of its promise: a rejection, or a value that is a
  response or \<open>null\<close> (\<open>None\<close>).
\<close>

type_synonym handled = "(js_error + response option) \<times> sw_state"

definition cache_if_ok :: "request \<Rightarrow> response \<Rightarrow> sw_state \<Rightarrow> sw_state" where
  "cache_if_ok req networkResponse st =
     (if ok networkResponse then open_and_put DYNAMIC_CACHE req networkResponse st else st)"

definition cacheFirst :: "network \<Rightarrow> request \<Rightarrow> sw_state \<Rightarrow> handled" where
  "cacheFirst net req st =
     (case caches_match req st of
        Some cachedResponse \<Rightarrow> (Inr (Some cachedResponse), recordCacheHit st)
      | None \<Rightarrow>
          (case fetch net req (recordNetworkRequest (recordCacheMiss st)) of
             (Inl err, st1) \<Rightarrow> (Inl err, st1)
           | (Inr networkResponse, st1) \<Rightarrow>
               (Inr (Some networkResponse), cache_if_ok req networkResponse st1)))"

definition networkFirst :: "network \<Rightarrow> request \<Rightarrow> sw_state \<Rightarrow> handled" where
  "networkFirst net req st =
     (case fetch net req (recordNetworkRequest st) of
        (Inr networkResponse, st1) \<Rightarrow>
          (Inr (Some networkResponse), cache_if_ok req networkResponse st1)
      | (Inl err, st1) \<Rightarrow>
          (case caches_match req st1 of
             Some cachedResponse \<Rightarrow> (Inr (Some cachedResponse), recordCacheHit st1)
           | None \<Rightarrow> (Inl err, recordCacheMiss st1)))"

text \<open>
  In \<open>staleWhileRevalidate\<close> the fetch is started in every case. \<open>fetchPromise\<close> is the
  fetch chained with a \<open>then\<close> handler, which stores an \<open>ok\<close> response and passes the
  response on, and a \<open>catch\<close> handler, which logs and returns \<open>null\<close>.
\<close>

definition staleWhileRevalidate :: "network \<Rightarrow> request \<Rightarrow> sw_state \<Rightarrow> handled" where
  "staleWhileRevalidate net req st =
     (let cachedResponse = caches_match req st;
          (fetchPromise, st2) =
            (case fetch net req st of
               (Inr networkResponse, st1) \<Rightarrow>
                 (Inr (Some networkResponse), cache_if_ok req networkResponse st1)
             | (Inl err, st1) \<Rightarrow> (Inr None, st1))
      in case cachedResponse of
           Some cached \<Rightarrow> (Inr (Some cached), recordCacheHit st2)
         | None \<Rightarrow> (fetchPromise, recordNetworkRequest (recordCacheMiss st2)))"

definition cacheOnly :: "request \<Rightarrow> sw_state \<Rightarrow> handled" where
  "cacheOnly req st =
     (case caches_match req st of
        Some cachedResponse \<Rightarrow> (Inr (Some cachedResponse), recordCacheHit st)
      | None \<Rightarrow> (Inl (Error ''Resource not in cache''), recordCacheMiss st))"

definition networkOnly :: "network \<Rightarrow> request \<Rightarrow> sw_state \<Rightarrow> handled" where
  "networkOnly net req st =
     (case fetch net req (recordNetworkRequest st) of
        (Inl err, st1) \<Rightarrow> (Inl err, st1)
      | (Inr networkResponse, st1) \<Rightarrow> (Inr (Some networkResponse), st1))"

definition handleRequest :: "network \<Rightarrow> request \<Rightarrow> strategy \<Rightarrow> sw_state \<Rightarrow> handled" where
  "handleRequest net req strategy st =
     (if strategy = CACHE_FIRST then cacheFirst net req st
      else if strategy = NETWORK_FIRST then networkFirst net req st
      else if strategy = STALE_WHILE_REVALIDATE then staleWhileRevalidate net req st
      else if strategy = CACHE_ONLY then cacheOnly req st
      else if strategy = NETWORK_ONLY then networkOnly net req st
      else networkFirst net req st)"

section \<open>The fetch listener\<close>

text \<open>\<open>new Response('Network error', {status: 408, statusText: 'Request Timeout'})\<close>\<close>

definition timeout_response :: response where
  "timeout_response =
     \<lparr>status = 408, statusText = ''Request Timeout'',
      headers = [(''content-type'', ''text/plain;charset=UTF-8'')], body = ''Network error''\<rparr>"

text \<open>
  The listener either returns without answering (the browser handles the request) or
  calls \<open>event.respondWith\<close> with a promise, given here by its settlement.
\<close>

datatype fetch_event_outcome = NotHandled | RespondWith "js_error + response option"

definition fetch_listener :: "network \<Rightarrow> request \<Rightarrow> sw_state \<Rightarrow> fetch_event_outcome \<times> sw_state" where
  "fetch_listener net req st =
     (if http_method req \<noteq> ''GET'' then (NotHandled, st)
      else if \<not> startsWith (URL_protocol (url req)) ''http'' then (NotHandled, st)
      else
        (let strategy = getCacheStrategy (url req)
         in case handleRequest net req strategy st of
              (Inr v, st1) \<Rightarrow> (RespondWith (Inr v), st1)
            | (Inl err, st1) \<Rightarrow> (RespondWith (Inr (Some timeout_response)), recordError err st1)))"

section \<open>The message listener\<close>

text \<open>One record of the array \<open>prefetchResources\<close> returns: \<open>{url, success, error}\<close>.\<close>

record prefetch_result =
  result_url :: string
  success :: bool
  error_message :: "string option"

text \<open>
  \<open>urls.map(url => cache.add(url))\<close> under \<open>Promise.allSettled\<close>: the settlements of
  the adds, in the order of the URLs.
\<close>

fun add_each :: "network \<Rightarrow> string \<Rightarrow> string list \<Rightarrow> sw_state \<Rightarrow> (js_error + unit) list \<times> sw_state" where
  "add_each net name [] st = ([], st)"
| "add_each net name (u # us) st =
     (case cache_add net name u st of
        (r, st1) \<Rightarrow> (case add_each net name us st1 of (rs, st2) \<Rightarrow> (r # rs, st2)))"

definition prefetchResources :: "network \<Rightarrow> string list \<Rightarrow> sw_state \<Rightarrow> prefetch_result list \<times> sw_state" where
  "prefetchResources net urls st =
     (case add_each net DYNAMIC_CACHE urls (caches_open DYNAMIC_CACHE st) of
        (results, st1) \<Rightarrow>
          (map (\<lambda>(result, index).
                  \<lparr>result_url = urls ! index,
                   success = (case result of Inr _ \<Rightarrow> True | Inl _ \<Rightarrow> False),
                   error_message = (case result of Inl reason \<Rightarrow> Some (message reason) | Inr _ \<Rightarrow> None)\<rparr>)
               (zip results [0..<length results]),
           st1))"

definition clearAllCaches :: "sw_state \<Rightarrow> (js_error + unit) \<times> sw_state" where
  "clearAllCaches st = (Inr (), st\<lparr>caches := []\<rparr>)"

text \<open>
  A message carries a type and, optionally, a payload; the payload of a prefetch command
  carries, optionally, a list of URLs. The value of \<open>message_listener\<close> is the list of
  messages posted on the port of the event.
\<close>

record payload =
  urls :: "string list option"

record message_data =
  msg_type :: string
  msg_payload :: "payload option"

datatype port_message =
  METRICS_RESPONSE metrics
| CACHE_CLEARED bool "string option"
| PREFETCH_COMPLETE "prefetch_result list"

definition message_listener :: "network \<Rightarrow> message_data \<Rightarrow> sw_state \<Rightarrow> port_message list \<times> sw_state" where
  "message_listener net data st =
     (if msg_type data = ''GET_METRICS'' then ([METRICS_RESPONSE (getMetrics st)], st)
      else if msg_type data = ''CLEAR_CACHE'' then
        (case clearAllCaches st of
           (Inr _, st1) \<Rightarrow> ([CACHE_CLEARED True None], st1)
         | (Inl err, st1) \<Rightarrow> ([CACHE_CLEARED False (Some (message err))], st1))
      else if msg_type data = ''PREFETCH_RESOURCES'' then
        (case msg_payload data of
           None \<Rightarrow> ([], st)
         | Some p \<Rightarrow>
             (case urls p of
                None \<Rightarrow> ([], st)
              | Some us \<Rightarrow>
                  (case prefetchResources net us st of
                     (results, st1) \<Rightarrow> ([PREFETCH_COMPLETE results], st1))))
      else ([], st))"

section \<open>Periodic cleanup\<close>

definition maxAge :: int where
  "maxAge = 7 * 24 * 60 * 60 * 1000"

text \<open>
  The test the cleanup applies to a stored response. \<open>Date_getTime\<close> stands for
  \<open>new Date(dateHeader).getTime()\<close>: the time in milliseconds, or \<open>None\<close> for
  \<open>NaN\<close> (a text that is not a date), with which every comparison is false. A header
  that is absent or the empty text is falsy. Times are whole milliseconds, far below
  \<open>2^53\<close>, so the subtraction is exact.
\<close>

definition expired :: "(string \<Rightarrow> int option) \<Rightarrow> int \<Rightarrow> response \<Rightarrow> bool" where
  "expired Date_getTime now r =
     (case headers_get r ''date'' of
        None \<Rightarrow> False
      | Some dateHeader \<Rightarrow>
          if dateHeader = [] then False
          else (case Date_getTime dateHeader of
                  None \<Rightarrow> False
                | Some responseDate \<Rightarrow> now - responseDate > maxAge))"

text \<open>
  \<open>performCacheCleanup\<close>: each key of the dynamic partition is looked up (all the
  lookups are issued before any deletion), and the entries whose response is expired are
  deleted. A lookup that found nothing would make the callback throw on
  \<open>response.headers\<close> and the \<open>Promise.all\<close> reject.
\<close>

definition performCacheCleanup ::
  "(string \<Rightarrow> int option) \<Rightarrow> int \<Rightarrow> sw_state \<Rightarrow> (js_error + unit) \<times> sw_state" where
  "performCacheCleanup Date_getTime now st =
     (let st1 = caches_open DYNAMIC_CACHE st;
          c = storage_get (caches st1) DYNAMIC_CACHE;
          requests = map fst c;
          doomed = filter (\<lambda>u. case cache_match c u of
                                   None \<Rightarrow> False
                                 | Some r \<Rightarrow> expired Date_getTime now r) requests;
          st2 = st1\<lparr>caches := storage_update (caches st1) DYNAMIC_CACHE
                                 (\<lambda>c. fold (\<lambda>u c. cache_delete c u) doomed c)\<rparr>
      in (if list_ex (\<lambda>u. cache_match c u = None) requests
          then Inl (TypeError ''Cannot read properties of undefined'')
          else Inr (),
          st2))"

section \<open>Example inputs\<close>

text \<open>A worker that has just started: no partition, all counters at zero.\<close>

definition fresh_state :: sw_state where
  "fresh_state =
     \<lparr>caches = [],
      monitor = \<lparr>cacheHits = 0, cacheMisses = 0, networkRequests = 0, errors = 0\<rparr>,
      effects = [], skipWaitingCalled = False\<rparr>"

definition response_200 :: response where
  "response_200 = \<lparr>status = 200, statusText = ''OK'', headers = [], body = ''data''\<rparr>"

definition response_404 :: response where
  "response_404 = \<lparr>status = 404, statusText = ''Not Found'', headers = [], body = []\<rparr>"

definition response_206 :: response where
  "response_206 =
     \<lparr>status = 206, statusText = ''Partial Content'',
      headers = [(''content-range'', ''bytes 0-3/100'')], body = ''data''\<rparr>"

definition response_vary_any :: response where
  "response_vary_any =
     \<lparr>status = 200, statusText = ''OK'', headers = [(''vary'', ''accept-encoding, *'')],
      body = ''data''\<rparr>"

definition network_partial :: network where
  "network_partial req = Inr response_206"

definition network_vary_any :: network where
  "network_vary_any req = Inr response_vary_any"

definition network_up :: network where
  "network_up req = Inr response_200"

definition network_down :: network where
  "network_down req = Inl (TypeError ''Failed to fetch'')"

text \<open>A network on which only \<open>/a.png\<close> can be fetched.\<close>

definition network_a_png :: network where
  "network_a_png req =
     (if url req = ''/a.png'' then Inr response_200 else Inl (TypeError ''Failed to fetch''))"

text \<open>A server that has every resource except \<open>/index.html\<close>.\<close>

definition network_index_missing :: network where
  "network_index_missing req =
     (if url req = ''/index.html'' then Inr response_404 else Inr response_200)"

definition logo_request :: request where
  "logo_request = \<lparr>http_method = ''GET'', url = ''https://pocketgnu.example/img/logo.png''\<rparr>"

definition script_request :: request where
  "script_request = \<lparr>http_method = ''GET'', url = ''https://pocketgnu.example/js/scripts.js''\<rparr>"

definition page_request :: request where
  "page_request = \<lparr>http_method = ''GET'', url = ''https://pocketgnu.example/about''\<rparr>"

text \<open>A worker whose dynamic partition holds the page of \<open>page_request\<close>.\<close>

definition page_cached_state :: sw_state where
  "page_cached_state =
     fresh_state\<lparr>caches := [(DYNAMIC_CACHE, [(''https://pocketgnu.example/about'', response_200)])]\<rparr>"

text \<open>
  A dynamic partition with an entry dated eight days before \<open>cleanup_now\<close>, one dated
  six days before it, one without a date header and one whose date header is not a date,
  and a date parser that knows the two dates.
\<close>

definition cleanup_now :: int where
  "cleanup_now = 1704758400000"

definition cleanup_Date_getTime :: "string \<Rightarrow> int option" where
  "cleanup_Date_getTime d =
     map_of [(''Mon, 01 Jan 2024 00:00:00 GMT'', 1704067200000),
             (''Wed, 03 Jan 2024 00:00:00 GMT'', 1704240000000)] d"

definition dated_response :: "string \<Rightarrow> response" where
  "dated_response d = \<lparr>status = 200, statusText = ''OK'', headers = [(''date'', d)], body = ''data''\<rparr>"

definition cleanup_state :: sw_state where
  "cleanup_state =
     fresh_state\<lparr>caches :=
       [(DYNAMIC_CACHE,
         [(''/old.png'', dated_response ''Mon, 01 Jan 2024 00:00:00 GMT''),
          (''/recent.png'', dated_response ''Wed, 03 Jan 2024 00:00:00 GMT''),
          (''/undated.png'', response_200),
          (''/odd.png'', dated_response ''yesterday'')])]\<rparr>"

section \<open>Properties of the classification\<close>

lemma getCacheStrategy_loop_first:
  assumes "i < length ps"
    and "regexp_test (fst (ps ! i)) u"
    and "\<forall>j<i. \<not> regexp_test (fst (ps ! j)) u"
  shows "getCacheStrategy_loop ps u = snd (ps ! i)"
  using assms
proof (induction ps arbitrary: i)
  case Nil
  then show ?case by simp
next
  case (Cons p ps)
  obtain pattern strategy where p: "p = (pattern, strategy)" by (cases p)
  show ?case
  proof (cases i)
    case 0
    with Cons.prems p show ?thesis by simp
  next
    case (Suc k)
    from Cons.prems(3) Suc have head: "\<not> regexp_test pattern u"
      using p by fastforce
    have k: "k < length ps" using Cons.prems(1) Suc by simp
    have at: "regexp_test (fst (ps ! k)) u" using Cons.prems(2) Suc by simp
    have before: "\<forall>j<k. \<not> regexp_test (fst (ps ! j)) u"
    proof (intro allI impI)
      fix j assume "j < k"
      then have "Suc j < i" using Suc by simp
      with Cons.prems(3) have "\<not> regexp_test (fst ((p # ps) ! Suc j)) u" by blast
      then show "\<not> regexp_test (fst (ps ! j)) u" by simp
    qed
    from Cons.IH [OF k at before] head p Suc show ?thesis by simp
  qed
qed

lemma getCacheStrategy_loop_none:
  "\<forall>p\<in>set ps. \<not> regexp_test (fst p) u \<Longrightarrow> getCacheStrategy_loop ps u = NETWORK_FIRST"
  by (induction ps) auto

text \<open>
  Claim C1. For every request URL, the strategy returned by \<open>getCacheStrategy\<close> is the
  strategy of the first pair of \<open>CACHE_PATTERNS\<close> whose pattern matches the URL (the pair
  at index \<open>i\<close> matches and no pair before it does), and it is network-first when no
  pattern of the list matches.
\<close>

theorem getCacheStrategy_first_match:
  "(i < length CACHE_PATTERNS \<and> regexp_test (fst (CACHE_PATTERNS ! i)) u \<and>
      (\<forall>j<i. \<not> regexp_test (fst (CACHE_PATTERNS ! j)) u)
      \<longrightarrow> getCacheStrategy u = snd (CACHE_PATTERNS ! i)) \<and>
   ((\<forall>p\<in>set CACHE_PATTERNS. \<not> regexp_test (fst p) u)
      \<longrightarrow> getCacheStrategy u = NETWORK_FIRST)"
  unfolding getCacheStrategy_def
  using getCacheStrategy_loop_first [of i CACHE_PATTERNS u]
    getCacheStrategy_loop_none [of CACHE_PATTERNS u]
  by blast

theorem getCacheStrategy_first_match_witness:
  "(1::nat) < length CACHE_PATTERNS \<and>
   regexp_test (fst (CACHE_PATTERNS ! 1)) ''https://fonts.gstatic.com/logo.png'' \<and>
   \<not> regexp_test (fst (CACHE_PATTERNS ! 0)) ''https://fonts.gstatic.com/logo.png'' \<and>
   getCacheStrategy ''https://fonts.gstatic.com/logo.png'' = ''cache-first'' \<and>
   list_all (\<lambda>p. \<not> regexp_test (fst p) ''/index.html'') CACHE_PATTERNS \<and>
   getCacheStrategy ''/index.html'' = ''network-first''"
proof -
  have a: "(1::nat) < length CACHE_PATTERNS"
    by (simp add: CACHE_PATTERNS_def)
  have b: "regexp_test (fst (CACHE_PATTERNS ! 1)) ''https://fonts.gstatic.com/logo.png''"
    by (simp add: CACHE_PATTERNS_def endsWith_def)
  have c0: "\<not> regexp_test (fst (CACHE_PATTERNS ! 0)) ''https://fonts.gstatic.com/logo.png''"
    by (simp add: CACHE_PATTERNS_def endsWith_def)
  then have c: "\<forall>j<1. \<not> regexp_test (fst (CACHE_PATTERNS ! j)) ''https://fonts.gstatic.com/logo.png''"
    by simp
  have d0: "list_all (\<lambda>p. \<not> regexp_test (fst p) ''/index.html'') CACHE_PATTERNS"
    by (simp add: CACHE_PATTERNS_def endsWith_def startsWith_def)
  then have d: "\<forall>p\<in>set CACHE_PATTERNS. \<not> regexp_test (fst p) ''/index.html''"
    by (simp add: list_all_iff)
  have e: "getCacheStrategy ''https://fonts.gstatic.com/logo.png'' = snd (CACHE_PATTERNS ! 1)"
    using getCacheStrategy_first_match [of 1 "''https://fonts.gstatic.com/logo.png''"] a b c
    by blast
  have f: "getCacheStrategy ''/index.html'' = NETWORK_FIRST"
    using getCacheStrategy_first_match [of 0 "''/index.html''"] d by blast
  from e have e': "getCacheStrategy ''https://fonts.gstatic.com/logo.png'' = ''cache-first''"
    by (simp add: CACHE_PATTERNS_def CACHE_FIRST_def)
  from f have f': "getCacheStrategy ''/index.html'' = ''network-first''"
    by (simp add: NETWORK_FIRST_def)
  from a b c0 d0 e' f' show ?thesis by blast
qed

section \<open>Properties of the cache partitions\<close>

lemma map_of_cache_delete: "map_of (cache_delete c u) v = (if v = u then None else map_of c v)"
  unfolding cache_delete_def by (induction c) auto

lemma cache_match_put_same: "cache_match (cache_put c u r) u = Some r"
  by (simp add: cache_match_def cache_put_def map_of_cache_delete map_add_def)

lemma map_of_storage_update:
  "map_of (storage_update s name f) name = map_option f (map_of s name)"
  unfolding storage_update_def by (induction s) auto

lemma map_of_storage_open: "map_of (storage_open s name) name \<noteq> None"
  unfolding storage_open_def
  by (auto simp: map_add_def map_of_eq_None_iff split: option.splits)

lemma storage_get_open: "storage_get (storage_open s name) name = storage_get s name"
proof (cases "name \<in> set (map fst s)")
  case True
  then show ?thesis by (simp add: storage_open_def)
next
  case False
  then have "map_of s name = None" by (simp add: map_of_eq_None_iff)
  with False show ?thesis by (simp add: storage_open_def storage_get_def map_add_def)
qed

lemma storage_get_update_open:
  "storage_get (storage_update (storage_open s name) name f) name = f (storage_get s name)"
proof -
  obtain c where c: "map_of (storage_open s name) name = Some c"
    using map_of_storage_open [of s name] by blast
  then have "storage_get (storage_open s name) name = c" by (simp add: storage_get_def)
  then have "storage_get s name = c" by (simp add: storage_get_open)
  then show ?thesis by (simp add: storage_get_def map_of_storage_update c)
qed

lemma put_stored_stored:
  "cache_match (storage_get (caches (put_stored name u r st)) name) u = Some r"
  by (simp add: put_stored_def caches_open_def Let_def storage_get_update_open
      cache_match_put_same)

lemma put_stored_effects:
  "effects (put_stored name u r st) = effects st @ [CachePut name u r]"
  by (simp add: put_stored_def caches_open_def Let_def)

lemma put_stored_monitor: "monitor (put_stored name u r st) = monitor st"
  by (simp add: put_stored_def caches_open_def Let_def)

lemma put_stored_skipWaiting:
  "skipWaitingCalled (put_stored name u r st) = skipWaitingCalled st"
  by (simp add: put_stored_def caches_open_def Let_def)

lemma open_and_put_accepted:
  assumes "request_storable req" and "response_storable r"
  shows "open_and_put name req r st = put_stored name (url req) r st"
  using assms by (simp add: open_and_put_def)

lemma open_and_put_refused:
  assumes "\<not> (request_storable req \<and> response_storable r)"
  shows "effects (open_and_put name req r st) =
           effects st @ [CachePutRejected name (url req) r]"
    and "storage_get (caches (open_and_put name req r st)) name = storage_get (caches st) name"
  using assms by (auto simp: open_and_put_def caches_open_def Let_def storage_get_open)

lemma open_and_put_monitor: "monitor (open_and_put name req r st) = monitor st"
  by (simp add: open_and_put_def put_stored_monitor caches_open_def Let_def)

section \<open>Properties of the strategy handlers\<close>

text \<open>
  Claim C2, as the code has it. Under cache-first, when no partition has an entry for the
  request and the fetch gives a response whose status is in the range 200 to 299, the
  handler returns that response and adds one to the cache-miss counter and one to the
  network-request counter, leaving the others as they were. It issues one fetch and one
  \<open>put\<close>, to the dynamic partition. When the browser accepts the \<open>put\<close> (a GET
  request for an http or https URL, a response that is not a 206 and has no \<open>*\<close> in
  its \<open>Vary\<close> header), that is the one cache write and the dynamic partition then holds
  the response under the request URL; when the browser refuses it, there is no cache write
  and the dynamic partition is as before.
\<close>

theorem cacheFirst_miss_then_ok_response:
  assumes "caches_match req st = None"
    and "net req = Inr networkResponse"
    and "ok networkResponse"
  shows "fst (cacheFirst net req st) = Inr (Some networkResponse) \<and>
    monitor (snd (cacheFirst net req st)) =
      (monitor st)\<lparr>cacheMisses := cacheMisses (monitor st) + 1,
                   networkRequests := networkRequests (monitor st) + 1\<rparr> \<and>
    (request_storable req \<and> response_storable networkResponse \<longrightarrow>
       effects (snd (cacheFirst net req st)) =
         effects st @ [NetFetch req, CachePut DYNAMIC_CACHE (url req) networkResponse] \<and>
       cache_match (storage_get (caches (snd (cacheFirst net req st))) DYNAMIC_CACHE) (url req) =
         Some networkResponse) \<and>
    (\<not> (request_storable req \<and> response_storable networkResponse) \<longrightarrow>
       effects (snd (cacheFirst net req st)) =
         effects st @ [NetFetch req, CachePutRejected DYNAMIC_CACHE (url req) networkResponse] \<and>
       storage_get (caches (snd (cacheFirst net req st))) DYNAMIC_CACHE =
         storage_get (caches st) DYNAMIC_CACHE)"
proof -
  let ?st1 = "(recordNetworkRequest (recordCacheMiss st))\<lparr>effects := effects st @ [NetFetch req]\<rparr>"
  have eq: "cacheFirst net req st =
      (Inr (Some networkResponse), open_and_put DYNAMIC_CACHE req networkResponse ?st1)"
    using assms
    by (simp add: cacheFirst_def fetch_def cache_if_ok_def recordNetworkRequest_def
        recordCacheMiss_def)
  have fields: "effects ?st1 = effects st @ [NetFetch req]" "caches ?st1 = caches st"
    "monitor ?st1 = (monitor st)\<lparr>cacheMisses := cacheMisses (monitor st) + 1,
                                  networkRequests := networkRequests (monitor st) + 1\<rparr>"
    by (simp_all add: recordNetworkRequest_def recordCacheMiss_def)
  have res: "fst (cacheFirst net req st) = Inr (Some networkResponse)"
    by (simp add: eq)
  have mon: "monitor (snd (cacheFirst net req st)) =
      (monitor st)\<lparr>cacheMisses := cacheMisses (monitor st) + 1,
                   networkRequests := networkRequests (monitor st) + 1\<rparr>"
    by (simp add: eq open_and_put_monitor fields)
  have acc: "effects (snd (cacheFirst net req st)) =
        effects st @ [NetFetch req, CachePut DYNAMIC_CACHE (url req) networkResponse] \<and>
      cache_match (storage_get (caches (snd (cacheFirst net req st))) DYNAMIC_CACHE) (url req) =
        Some networkResponse"
    if "request_storable req" "response_storable networkResponse"
    using that
    by (simp add: eq open_and_put_accepted put_stored_effects put_stored_stored fields)
  have ref: "effects (snd (cacheFirst net req st)) =
        effects st @ [NetFetch req, CachePutRejected DYNAMIC_CACHE (url req) networkResponse] \<and>
      storage_get (caches (snd (cacheFirst net req st))) DYNAMIC_CACHE =
        storage_get (caches st) DYNAMIC_CACHE"
    if "\<not> (request_storable req \<and> response_storable networkResponse)"
    using open_and_put_refused [OF that, of DYNAMIC_CACHE ?st1]
    by (simp add: eq fields)
  from res mon acc ref show ?thesis by blast
qed

theorem cacheFirst_miss_then_ok_response_witness:
  "caches_match logo_request fresh_state = None \<and>
   network_up logo_request = Inr response_200 \<and>
   ok response_200 \<and>
   request_storable logo_request \<and>
   response_storable response_200 \<and>
   fst (cacheFirst network_up logo_request fresh_state) = Inr (Some response_200) \<and>
   effects (snd (cacheFirst network_up logo_request fresh_state)) =
     [NetFetch logo_request,
      CachePut ''pocketgnu-dynamic-v1.0.0'' ''https://pocketgnu.example/img/logo.png'' response_200] \<and>
   cache_match (storage_get (caches (snd (cacheFirst network_up logo_request fresh_state)))
     DYNAMIC_CACHE) ''https://pocketgnu.example/img/logo.png'' = Some response_200 \<and>
   cacheMisses (monitor (snd (cacheFirst network_up logo_request fresh_state))) = 1 \<and>
   networkRequests (monitor (snd (cacheFirst network_up logo_request fresh_state))) = 1 \<and>
   network_vary_any logo_request = Inr response_vary_any \<and>
   ok response_vary_any \<and>
   \<not> response_storable response_vary_any \<and>
   fst (cacheFirst network_vary_any logo_request fresh_state) = Inr (Some response_vary_any) \<and>
   effects (snd (cacheFirst network_vary_any logo_request fresh_state)) =
     [NetFetch logo_request,
      CachePutRejected ''pocketgnu-dynamic-v1.0.0'' ''https://pocketgnu.example/img/logo.png''
        response_vary_any] \<and>
   storage_get (caches (snd (cacheFirst network_vary_any logo_request fresh_state)))
     DYNAMIC_CACHE = []"
proof -
  have a: "caches_match logo_request fresh_state = None"
    by (simp add: caches_match_def fresh_state_def)
  have b: "network_up logo_request = Inr response_200"
    by (simp add: network_up_def)
  have c: "ok response_200"
    by (simp add: ok_def response_200_def)
  have d: "request_storable logo_request"
    by (simp add: request_storable_def logo_request_def URL_protocol_def)
  have e: "response_storable response_200"
    by (simp add: response_storable_def vary_any_def headers_get_def response_200_def)
  have b': "network_vary_any logo_request = Inr response_vary_any"
    by (simp add: network_vary_any_def)
  have c': "ok response_vary_any"
    by (simp add: ok_def response_vary_any_def)
  have e': "\<not> response_storable response_vary_any"
    by (simp add: response_storable_def vary_any_def headers_get_def response_vary_any_def
        trim_def is_space_def)
  have empty: "storage_get (caches fresh_state) DYNAMIC_CACHE = []"
    by (simp add: fresh_state_def storage_get_def)
  have stored: "fst (cacheFirst network_up logo_request fresh_state) = Inr (Some response_200) \<and>
      effects (snd (cacheFirst network_up logo_request fresh_state)) =
        [NetFetch logo_request,
         CachePut ''pocketgnu-dynamic-v1.0.0'' ''https://pocketgnu.example/img/logo.png''
           response_200] \<and>
      cache_match (storage_get (caches (snd (cacheFirst network_up logo_request fresh_state)))
        DYNAMIC_CACHE) ''https://pocketgnu.example/img/logo.png'' = Some response_200 \<and>
      cacheMisses (monitor (snd (cacheFirst network_up logo_request fresh_state))) = 1 \<and>
      networkRequests (monitor (snd (cacheFirst network_up logo_request fresh_state))) = 1"
    using cacheFirst_miss_then_ok_response
      [where req = logo_request and st = fresh_state and net = network_up
         and networkResponse = response_200] a b c d e
    by (simp add: fresh_state_def logo_request_def DYNAMIC_CACHE_def)
  have refused: "fst (cacheFirst network_vary_any logo_request fresh_state) =
        Inr (Some response_vary_any) \<and>
      effects (snd (cacheFirst network_vary_any logo_request fresh_state)) =
        [NetFetch logo_request,
         CachePutRejected ''pocketgnu-dynamic-v1.0.0'' ''https://pocketgnu.example/img/logo.png''
           response_vary_any] \<and>
      storage_get (caches (snd (cacheFirst network_vary_any logo_request fresh_state)))
        DYNAMIC_CACHE = []"
    using cacheFirst_miss_then_ok_response
      [where req = logo_request and st = fresh_state and net = network_vary_any
         and networkResponse = response_vary_any] a b' c' e' empty
    by (simp add: fresh_state_def logo_request_def DYNAMIC_CACHE_def)
  from a b c d e b' c' e' stored refused show ?thesis by blast
qed

text \<open>
  The claim as the specification states it fails for a response of status 206: the status
  is in the range 200 to 299, the handler returns the response, but the browser refuses
  the \<open>put\<close> and no cache write occurs: the dynamic partition is created and stays
  empty.
\<close>

theorem cacheFirst_partial_content_not_written:
  "caches_match logo_request fresh_state = None \<and>
   network_partial logo_request = Inr response_206 \<and>
   ok response_206 \<and>
   fst (cacheFirst network_partial logo_request fresh_state) = Inr (Some response_206) \<and>
   caches (snd (cacheFirst network_partial logo_request fresh_state)) = [(DYNAMIC_CACHE, [])] \<and>
   effects (snd (cacheFirst network_partial logo_request fresh_state)) =
     [NetFetch logo_request, CachePutRejected DYNAMIC_CACHE (url logo_request) response_206]"
  by (simp add: cacheFirst_def caches_match_def fresh_state_def network_partial_def ok_def
      response_206_def fetch_def cache_if_ok_def open_and_put_def response_storable_def
      caches_open_def storage_open_def recordCacheMiss_def recordNetworkRequest_def Let_def)

text \<open>
  Claim C3. Under network-first, when the fetch fails: if a partition has an entry for the
  request, the handler is fulfilled with that entry (no error is thrown) and the cache-hit
  counter grows by one; if no partition has one, the handler is rejected with the failure
  of the fetch and the cache-miss counter grows by one. (In both cases the network request
  was counted before the fetch.)
\<close>

theorem networkFirst_network_failure:
  assumes "net req = Inl err"
  shows "(\<forall>cached. caches_match req st = Some cached \<longrightarrow>
            fst (networkFirst net req st) = Inr (Some cached) \<and>
            monitor (snd (networkFirst net req st)) =
              (monitor st)\<lparr>networkRequests := networkRequests (monitor st) + 1,
                           cacheHits := cacheHits (monitor st) + 1\<rparr>) \<and>
         (caches_match req st = None \<longrightarrow>
            fst (networkFirst net req st) = Inl err \<and>
            monitor (snd (networkFirst net req st)) =
              (monitor st)\<lparr>networkRequests := networkRequests (monitor st) + 1,
                           cacheMisses := cacheMisses (monitor st) + 1\<rparr>)"
  using assms
  by (simp add: networkFirst_def fetch_def caches_match_def recordNetworkRequest_def
      recordCacheHit_def recordCacheMiss_def)

theorem networkFirst_network_failure_witness:
  "network_down page_request = Inl (TypeError ''Failed to fetch'') \<and>
   caches_match page_request page_cached_state = Some response_200 \<and>
   fst (networkFirst network_down page_request page_cached_state) = Inr (Some response_200) \<and>
   cacheHits (monitor (snd (networkFirst network_down page_request page_cached_state))) = 1 \<and>
   caches_match page_request fresh_state = None \<and>
   fst (networkFirst network_down page_request fresh_state) = Inl (TypeError ''Failed to fetch'') \<and>
   cacheMisses (monitor (snd (networkFirst network_down page_request fresh_state))) = 1"
proof -
  have a: "network_down page_request = Inl (TypeError ''Failed to fetch'')"
    by (simp add: network_down_def)
  have b: "caches_match page_request page_cached_state = Some response_200"
    by (simp add: caches_match_def page_cached_state_def page_request_def cache_match_def)
  have c: "caches_match page_request fresh_state = None"
    by (simp add: caches_match_def fresh_state_def)
  show ?thesis
    using networkFirst_network_failure
        [where net = network_down and req = page_request and st = page_cached_state
           and err = "TypeError ''Failed to fetch''"]
      networkFirst_network_failure
        [where net = network_down and req = page_request and st = fresh_state
           and err = "TypeError ''Failed to fetch''"] a b c
    by (simp add: fresh_state_def page_cached_state_def)
qed

text \<open>
  Claim C5. Under cache-only, when no partition has an entry for the request, the handler
  is rejected with the error \<open>Resource not in cache\<close>, the cache-miss counter grows by
  one, and no fetch and no cache write is issued: the log of effects and the partitions
  are as before.
\<close>

theorem cacheOnly_miss:
  assumes "caches_match req st = None"
  shows "fst (cacheOnly req st) = Inl (Error ''Resource not in cache'') \<and>
         monitor (snd (cacheOnly req st)) =
           (monitor st)\<lparr>cacheMisses := cacheMisses (monitor st) + 1\<rparr> \<and>
         effects (snd (cacheOnly req st)) = effects st \<and>
         caches (snd (cacheOnly req st)) = caches st"
  using assms by (simp add: cacheOnly_def recordCacheMiss_def)

theorem cacheOnly_miss_witness:
  "caches_match logo_request fresh_state = None \<and>
   fst (cacheOnly logo_request fresh_state) = Inl (Error ''Resource not in cache'') \<and>
   cacheMisses (monitor (snd (cacheOnly logo_request fresh_state))) = 1 \<and>
   effects (snd (cacheOnly logo_request fresh_state)) = [] \<and>
   caches (snd (cacheOnly logo_request fresh_state)) = []"
proof -
  have a: "caches_match logo_request fresh_state = None"
    by (simp add: caches_match_def fresh_state_def)
  show ?thesis
    using cacheOnly_miss [OF a] a by (simp add: fresh_state_def)
qed

section \<open>Properties of the fetch listener\<close>

text \<open>
  Claim C6. For a GET request whose URL has an http or https scheme, when the promise
  of the handler selected by \<open>getCacheStrategy\<close> is rejected, the listener answers with
  the synthetic response of status 408 and adds one to the error counter; and whatever the
  handler does, the promise given to \<open>respondWith\<close> is never rejected.
\<close>

theorem fetch_listener_rejection_becomes_408:
  assumes "http_method req = ''GET''"
    and "startsWith (URL_protocol (url req)) ''http''"
  shows "(\<forall>err st1. handleRequest net req (getCacheStrategy (url req)) st = (Inl err, st1) \<longrightarrow>
            fetch_listener net req st =
              (RespondWith (Inr (Some timeout_response)),
               st1\<lparr>monitor := (monitor st1)\<lparr>errors := errors (monitor st1) + 1\<rparr>\<rparr>)) \<and>
         status timeout_response = 408 \<and>
         (\<forall>err. fst (fetch_listener net req st) \<noteq> RespondWith (Inl err))"
  using assms
  by (auto simp: fetch_listener_def Let_def recordError_def timeout_response_def
      split: prod.splits sum.splits)

theorem fetch_listener_rejection_becomes_408_witness:
  "http_method logo_request = ''GET'' \<and>
   startsWith (URL_protocol (url logo_request)) ''http'' \<and>
   fst (handleRequest network_down logo_request (getCacheStrategy (url logo_request)) fresh_state) =
     Inl (TypeError ''Failed to fetch'') \<and>
   fst (fetch_listener network_down logo_request fresh_state) =
     RespondWith (Inr (Some timeout_response)) \<and>
   errors (monitor (snd (fetch_listener network_down logo_request fresh_state))) = 1"
proof -
  have a: "http_method logo_request = ''GET''"
    by (simp add: logo_request_def)
  have b: "startsWith (URL_protocol (url logo_request)) ''http''"
    by (simp add: logo_request_def URL_protocol_def startsWith_def)
  have s: "getCacheStrategy (url logo_request) = CACHE_FIRST"
    by (simp add: getCacheStrategy_def CACHE_PATTERNS_def logo_request_def endsWith_def)
  have c: "handleRequest network_down logo_request (getCacheStrategy (url logo_request)) fresh_state =
      (Inl (TypeError ''Failed to fetch''),
       fresh_state\<lparr>monitor := \<lparr>cacheHits = 0, cacheMisses = 1, networkRequests = 1, errors = 0\<rparr>,
                   effects := [NetFetch logo_request]\<rparr>)"
    unfolding s
    by (simp add: handleRequest_def cacheFirst_def caches_match_def fresh_state_def fetch_def
        network_down_def recordCacheMiss_def recordNetworkRequest_def)
  show ?thesis
    using fetch_listener_rejection_becomes_408 [OF a b, of network_down fresh_state] a b c
    by (simp add: fresh_state_def)
qed

section \<open>Properties of stale-while-revalidate\<close>

lemma staleWhileRevalidate_never_rejects:
  "fst (staleWhileRevalidate net req st) \<noteq> Inl err"
  by (simp add: staleWhileRevalidate_def Let_def fetch_def split: sum.splits option.splits)

lemma staleWhileRevalidate_miss:
  assumes "caches_match req st = None"
  shows "fst (staleWhileRevalidate net req st) =
           (case net req of Inr networkResponse \<Rightarrow> Inr (Some networkResponse) | Inl err \<Rightarrow> Inr None) \<and>
         monitor (snd (staleWhileRevalidate net req st)) =
           (monitor st)\<lparr>cacheMisses := cacheMisses (monitor st) + 1,
                        networkRequests := networkRequests (monitor st) + 1\<rparr>"
  using assms
  by (simp add: staleWhileRevalidate_def Let_def fetch_def cache_if_ok_def
      open_and_put_monitor recordCacheMiss_def recordNetworkRequest_def split: sum.splits)

text \<open>
  Claim C4. Under stale-while-revalidate with no entry for the request in any partition
  and a failing fetch, the handler is not rejected: it is fulfilled with \<open>null\<close>, after
  counting one cache miss and one network request. The fetch listener then hands
  \<open>null\<close> to \<open>respondWith\<close>; the error counter stays at zero and no 408 response is
  made.
\<close>

theorem staleWhileRevalidate_miss_failure_gives_null:
  "caches_match script_request fresh_state = None \<and>
   network_down script_request = Inl (TypeError ''Failed to fetch'') \<and>
   getCacheStrategy (url script_request) = STALE_WHILE_REVALIDATE \<and>
   fst (staleWhileRevalidate network_down script_request fresh_state) = Inr None \<and>
   monitor (snd (staleWhileRevalidate network_down script_request fresh_state)) =
     \<lparr>cacheHits = 0, cacheMisses = 1, networkRequests = 1, errors = 0\<rparr> \<and>
   fst (fetch_listener network_down script_request fresh_state) = RespondWith (Inr None) \<and>
   errors (monitor (snd (fetch_listener network_down script_request fresh_state))) = 0"
proof -
  have s: "getCacheStrategy (url script_request) = STALE_WHILE_REVALIDATE"
    by (simp add: getCacheStrategy_def CACHE_PATTERNS_def script_request_def endsWith_def)
  have h: "staleWhileRevalidate network_down script_request fresh_state =
      (Inr None,
       fresh_state\<lparr>monitor := \<lparr>cacheHits = 0, cacheMisses = 1, networkRequests = 1, errors = 0\<rparr>,
                   effects := [NetFetch script_request]\<rparr>)"
    by (simp add: staleWhileRevalidate_def caches_match_def fresh_state_def fetch_def
        network_down_def recordCacheMiss_def recordNetworkRequest_def)
  have l: "fetch_listener network_down script_request fresh_state =
      (RespondWith (Inr None),
       fresh_state\<lparr>monitor := \<lparr>cacheHits = 0, cacheMisses = 1, networkRequests = 1, errors = 0\<rparr>,
                   effects := [NetFetch script_request]\<rparr>)"
  proof -
    have m: "http_method script_request = ''GET''"
      by (simp add: script_request_def)
    have p: "startsWith (URL_protocol (url script_request)) ''http''"
      by (simp add: script_request_def URL_protocol_def startsWith_def)
    have d: "handleRequest network_down script_request STALE_WHILE_REVALIDATE fresh_state =
        staleWhileRevalidate network_down script_request fresh_state"
      by (simp add: handleRequest_def STALE_WHILE_REVALIDATE_def CACHE_FIRST_def NETWORK_FIRST_def)
    show ?thesis
      by (simp add: fetch_listener_def m p s d h)
  qed
  have a: "caches_match script_request fresh_state = None"
    by (simp add: caches_match_def fresh_state_def)
  have b: "network_down script_request = Inl (TypeError ''Failed to fetch'')"
    by (simp add: network_down_def)
  show ?thesis
    using a b s by (simp add: h l)
qed

section \<open>Properties of the install listener\<close>

lemma cache_add_monitor: "monitor (snd (cache_add net name u st)) = monitor st"
  by (simp add: cache_add_def fetch_def Let_def put_stored_monitor split: sum.splits)

lemma cache_add_skipWaiting:
  "skipWaitingCalled (snd (cache_add net name u st)) = skipWaitingCalled st"
  by (simp add: cache_add_def fetch_def Let_def put_stored_skipWaiting split: sum.splits)

lemma preload_monitor: "monitor (preload net name us st) = monitor st"
  by (induction us arbitrary: st) (simp_all add: cache_add_monitor)

lemma preload_skipWaiting: "skipWaitingCalled (preload net name us st) = skipWaitingCalled st"
  by (induction us arbitrary: st) (simp_all add: cache_add_skipWaiting)

lemma caches_open_fields:
  "monitor (caches_open name st) = monitor st"
  "skipWaitingCalled (caches_open name st) = skipWaitingCalled st"
  "effects (caches_open name st) = effects st"
  by (simp_all add: caches_open_def)

lemma fetch_each_unchanged:
  "monitor (snd (fetch_each net us st)) = monitor st \<and>
   skipWaitingCalled (snd (fetch_each net us st)) = skipWaitingCalled st \<and>
   caches (snd (fetch_each net us st)) = caches st"
proof (induction us arbitrary: st)
  case Nil
  then show ?case by simp
next
  case (Cons u us)
  let ?st1 = "st\<lparr>effects := effects st @ [NetFetch \<lparr>http_method = ''GET'', url = u\<rparr>]\<rparr>"
  obtain rs st2 where r: "fetch_each net us ?st1 = (rs, st2)"
    by (cases "fetch_each net us ?st1")
  from Cons.IH [of ?st1] r show ?case by (simp add: fetch_def)
qed

lemma cache_addAll_rejected:
  assumes "fst (cache_addAll net name us st) = Inl err"
  shows "monitor (snd (cache_addAll net name us st)) = monitor st \<and>
         skipWaitingCalled (snd (cache_addAll net name us st)) = skipWaitingCalled st \<and>
         caches (snd (cache_addAll net name us st)) = caches st"
proof -
  obtain rs st1 where f: "fetch_each net us st = (rs, st1)" by (cases "fetch_each net us st")
  from assms f obtain e where e: "first_failure rs = Some e"
    by (cases "first_failure rs") (simp_all add: cache_addAll_def)
  have "snd (cache_addAll net name us st) = snd (fetch_each net us st)"
    by (simp add: cache_addAll_def f e)
  then show ?thesis by (simp add: fetch_each_unchanged)
qed

lemma install_critical_failure:
  assumes "fst (cache_addAll net STATIC_CACHE CRITICAL_RESOURCES (caches_open STATIC_CACHE st)) = Inl err"
  shows "fst (install net st) = Inr () \<and>
         monitor (snd (install net st)) = (monitor st)\<lparr>errors := errors (monitor st) + 1\<rparr> \<and>
         skipWaitingCalled (snd (install net st)) = skipWaitingCalled st"
proof -
  obtain st1 where c: "cache_addAll net STATIC_CACHE CRITICAL_RESOURCES (caches_open STATIC_CACHE st) = (Inl err, st1)"
    using assms by (cases "cache_addAll net STATIC_CACHE CRITICAL_RESOURCES (caches_open STATIC_CACHE st)") simp
  have m: "monitor st1 = monitor st" "skipWaitingCalled st1 = skipWaitingCalled st"
    using cache_addAll_rejected [OF assms] c by (simp_all add: caches_open_fields)
  show ?thesis
    by (simp add: install_def c Let_def recordError_def preload_monitor preload_skipWaiting
        caches_open_fields m)
qed

lemma install_always_fulfilled: "fst (install net st) = Inr ()"
  by (simp add: install_def Let_def split: prod.splits sum.splits)

text \<open>
  Claim C7. When \<open>/index.html\<close> of the critical list cannot be cached (the server
  answers 404), \<open>cache.addAll\<close> is rejected and the error is counted, but the promise
  the install listener gives to \<open>waitUntil\<close> is fulfilled: the installation does not
  fail. \<open>skipWaiting\<close> is not called.
\<close>

theorem install_critical_failure_is_fulfilled:
  "fst (cache_addAll network_index_missing STATIC_CACHE CRITICAL_RESOURCES
          (caches_open STATIC_CACHE fresh_state)) = Inl (TypeError ''Request failed'') \<and>
   fst (install network_index_missing fresh_state) = Inr () \<and>
   errors (monitor (snd (install network_index_missing fresh_state))) = 1 \<and>
   \<not> skipWaitingCalled (snd (install network_index_missing fresh_state))"
proof -
  have rejected: "fst (cache_addAll network_index_missing STATIC_CACHE CRITICAL_RESOURCES
      (caches_open STATIC_CACHE fresh_state)) = Inl (TypeError ''Request failed'')"
    by (simp add: cache_addAll_def CRITICAL_RESOURCES_def fetch_def network_index_missing_def
        ok_def response_404_def response_200_def response_storable_def vary_any_def
        headers_get_def split: prod.splits)
  from install_critical_failure [OF rejected] rejected show ?thesis
    by (simp add: fresh_state_def)
qed

section \<open>Properties of the periodic cleanup\<close>

lemma map_of_fold_delete:
  "map_of (fold (\<lambda>u c. cache_delete c u) ds c) v = (if v \<in> set ds then None else map_of c v)"
  by (induction ds arbitrary: c) (auto simp: map_of_cache_delete)

lemma cleanup_partition:
  "storage_get (caches (snd (performCacheCleanup Date_getTime now st))) DYNAMIC_CACHE =
     (let c = storage_get (caches st) DYNAMIC_CACHE
      in fold (\<lambda>u c. cache_delete c u)
           (filter (\<lambda>u. case cache_match c u of None \<Rightarrow> False
                         | Some r \<Rightarrow> expired Date_getTime now r) (map fst c)) c)"
  by (simp add: performCacheCleanup_def Let_def caches_open_def storage_get_update_open
      storage_get_open)

lemma cleanup_match:
  assumes "cache_match (storage_get (caches st) DYNAMIC_CACHE) u = Some r"
  shows "cache_match (storage_get (caches (snd (performCacheCleanup Date_getTime now st)))
           DYNAMIC_CACHE) u = (if expired Date_getTime now r then None else Some r)"
proof -
  have "u \<in> set (map fst (storage_get (caches st) DYNAMIC_CACHE))"
    using assms unfolding cache_match_def by (metis map_of_eq_None_iff option.distinct(1) set_map)
  then show ?thesis
    using assms
    by (simp add: cleanup_partition Let_def cache_match_def map_of_fold_delete)
qed

lemma cleanup_fulfilled: "fst (performCacheCleanup Date_getTime now st) = Inr ()"
proof -
  have "\<not> list_ex (\<lambda>u. cache_match c u = None) (map fst c)" for c :: cache
    by (auto simp: list_ex_iff cache_match_def map_of_eq_None_iff)
  then show ?thesis by (simp add: performCacheCleanup_def Let_def)
qed

text \<open>
  Claim C8. For an entry of the dynamic partition (a URL \<open>u\<close> stored with the response
  \<open>r\<close>), after \<open>performCacheCleanup\<close> at time \<open>now\<close>: when the date header of
  \<open>r\<close> is a date more than 7 days before \<open>now\<close>, the partition has no entry for
  \<open>u\<close>; when it is a date at most 7 days before \<open>now\<close>, the entry is still there
  with the same response; and when \<open>r\<close> has no date header, an empty one, or one that
  is not a date, the entry is still there too. The cleanup completes without error.
\<close>

theorem performCacheCleanup_seven_days:
  assumes "cache_match (storage_get (caches st) DYNAMIC_CACHE) u = Some r"
  shows "(\<forall>d t. headers_get r ''date'' = Some d \<and> d \<noteq> [] \<and> Date_getTime d = Some t \<and>
              now - t > 7 * 24 * 60 * 60 * 1000 \<longrightarrow>
            cache_match (storage_get (caches (snd (performCacheCleanup Date_getTime now st)))
              DYNAMIC_CACHE) u = None) \<and>
         (\<forall>d t. headers_get r ''date'' = Some d \<and> d \<noteq> [] \<and> Date_getTime d = Some t \<and>
              now - t \<le> 7 * 24 * 60 * 60 * 1000 \<longrightarrow>
            cache_match (storage_get (caches (snd (performCacheCleanup Date_getTime now st)))
              DYNAMIC_CACHE) u = Some r) \<and>
         (headers_get r ''date'' = None \<or> headers_get r ''date'' = Some [] \<or>
            (\<exists>d. headers_get r ''date'' = Some d \<and> Date_getTime d = None) \<longrightarrow>
            cache_match (storage_get (caches (snd (performCacheCleanup Date_getTime now st)))
              DYNAMIC_CACHE) u = Some r) \<and>
         fst (performCacheCleanup Date_getTime now st) = Inr ()"
  using cleanup_match [OF assms, of Date_getTime now] cleanup_fulfilled [of Date_getTime now st]
  by (auto simp: expired_def maxAge_def split: option.splits if_splits)

theorem performCacheCleanup_seven_days_witness:
  "cache_match (storage_get (caches cleanup_state) DYNAMIC_CACHE) ''/old.png'' =
     Some (dated_response ''Mon, 01 Jan 2024 00:00:00 GMT'') \<and>
   cleanup_now - 1704067200000 > 7 * 24 * 60 * 60 * 1000 \<and>
   cache_match (storage_get (caches (snd (performCacheCleanup cleanup_Date_getTime cleanup_now
     cleanup_state))) DYNAMIC_CACHE) ''/old.png'' = None \<and>
   cache_match (storage_get (caches cleanup_state) DYNAMIC_CACHE) ''/recent.png'' =
     Some (dated_response ''Wed, 03 Jan 2024 00:00:00 GMT'') \<and>
   cleanup_now - 1704240000000 = 6 * 24 * 60 * 60 * 1000 \<and>
   cache_match (storage_get (caches (snd (performCacheCleanup cleanup_Date_getTime cleanup_now
     cleanup_state))) DYNAMIC_CACHE) ''/recent.png'' =
     Some (dated_response ''Wed, 03 Jan 2024 00:00:00 GMT'') \<and>
   cache_match (storage_get (caches cleanup_state) DYNAMIC_CACHE) ''/undated.png'' =
     Some response_200 \<and>
   headers_get response_200 ''date'' = None \<and>
   cache_match (storage_get (caches (snd (performCacheCleanup cleanup_Date_getTime cleanup_now
     cleanup_state))) DYNAMIC_CACHE) ''/undated.png'' = Some response_200 \<and>
   cache_match (storage_get (caches cleanup_state) DYNAMIC_CACHE) ''/odd.png'' =
     Some (dated_response ''yesterday'') \<and>
   cleanup_Date_getTime ''yesterday'' = None \<and>
   cache_match (storage_get (caches (snd (performCacheCleanup cleanup_Date_getTime cleanup_now
     cleanup_state))) DYNAMIC_CACHE) ''/odd.png'' = Some (dated_response ''yesterday'')"
proof -
  have part: "storage_get (caches cleanup_state) DYNAMIC_CACHE =
      [(''/old.png'', dated_response ''Mon, 01 Jan 2024 00:00:00 GMT''),
       (''/recent.png'', dated_response ''Wed, 03 Jan 2024 00:00:00 GMT''),
       (''/undated.png'', response_200),
       (''/odd.png'', dated_response ''yesterday'')]"
    by (simp add: cleanup_state_def fresh_state_def storage_get_def)
  have old: "cache_match (storage_get (caches cleanup_state) DYNAMIC_CACHE) ''/old.png'' =
      Some (dated_response ''Mon, 01 Jan 2024 00:00:00 GMT'')"
    by (simp add: part cache_match_def)
  have recent: "cache_match (storage_get (caches cleanup_state) DYNAMIC_CACHE) ''/recent.png'' =
      Some (dated_response ''Wed, 03 Jan 2024 00:00:00 GMT'')"
    by (simp add: part cache_match_def)
  have undated: "cache_match (storage_get (caches cleanup_state) DYNAMIC_CACHE) ''/undated.png'' =
      Some response_200"
    by (simp add: part cache_match_def)
  have odd: "cache_match (storage_get (caches cleanup_state) DYNAMIC_CACHE) ''/odd.png'' =
      Some (dated_response ''yesterday'')"
    by (simp add: part cache_match_def)
  have h: "headers_get (dated_response d) ''date'' = Some d" for d
    by (simp add: headers_get_def dated_response_def)
  have h0: "headers_get response_200 ''date'' = None"
    by (simp add: headers_get_def response_200_def)
  have t1: "cleanup_Date_getTime ''Mon, 01 Jan 2024 00:00:00 GMT'' = Some 1704067200000"
    by (simp add: cleanup_Date_getTime_def)
  have t2: "cleanup_Date_getTime ''Wed, 03 Jan 2024 00:00:00 GMT'' = Some 1704240000000"
    by (simp add: cleanup_Date_getTime_def)
  have t3: "cleanup_Date_getTime ''yesterday'' = None"
    by (simp add: cleanup_Date_getTime_def)
  have a1: "cleanup_now - 1704067200000 > 7 * 24 * 60 * 60 * 1000"
    by (simp add: cleanup_now_def)
  have a2: "cleanup_now - 1704240000000 = 6 * 24 * 60 * 60 * 1000"
    by (simp add: cleanup_now_def)
  have r1: "cache_match (storage_get (caches (snd (performCacheCleanup cleanup_Date_getTime
      cleanup_now cleanup_state))) DYNAMIC_CACHE) ''/old.png'' = None"
    using performCacheCleanup_seven_days [OF old, of cleanup_Date_getTime cleanup_now]
      h [of "''Mon, 01 Jan 2024 00:00:00 GMT''"] t1 a1
    by auto
  have r2: "cache_match (storage_get (caches (snd (performCacheCleanup cleanup_Date_getTime
      cleanup_now cleanup_state))) DYNAMIC_CACHE) ''/recent.png'' =
      Some (dated_response ''Wed, 03 Jan 2024 00:00:00 GMT'')"
    using performCacheCleanup_seven_days [OF recent, of cleanup_Date_getTime cleanup_now]
      h [of "''Wed, 03 Jan 2024 00:00:00 GMT''"] t2 a2
    by auto
  have r3: "cache_match (storage_get (caches (snd (performCacheCleanup cleanup_Date_getTime
      cleanup_now cleanup_state))) DYNAMIC_CACHE) ''/undated.png'' = Some response_200"
    using performCacheCleanup_seven_days [OF undated, of cleanup_Date_getTime cleanup_now] h0
    by blast
  have r4: "cache_match (storage_get (caches (snd (performCacheCleanup cleanup_Date_getTime
      cleanup_now cleanup_state))) DYNAMIC_CACHE) ''/odd.png'' = Some (dated_response ''yesterday'')"
    using performCacheCleanup_seven_days [OF odd, of cleanup_Date_getTime cleanup_now]
      h [of "''yesterday''"] t3
    by blast
  from old recent undated odd h0 t3 a1 a2 r1 r2 r3 r4 show ?thesis by blast
qed

section \<open>Properties of the message listener\<close>

lemma cache_add_fst: "fst (cache_add net name u st) = fst (cache_add net name u st')"
  by (simp add: cache_add_def fetch_def Let_def split: sum.splits)

lemma add_each_fst:
  "fst (add_each net name us st) = map (\<lambda>u. fst (cache_add net name u st')) us"
proof (induction us arbitrary: st)
  case Nil
  then show ?case by simp
next
  case (Cons u us)
  obtain r st1 where a: "cache_add net name u st = (r, st1)" by (cases "cache_add net name u st")
  obtain rs st2 where b: "add_each net name us st1 = (rs, st2)" by (cases "add_each net name us st1")
  have "r = fst (cache_add net name u st')"
    using a cache_add_fst [of net name u st st'] by simp
  moreover have "rs = map (\<lambda>u. fst (cache_add net name u st')) us"
    using Cons.IH [of st1] b by simp
  ultimately show ?case using a b by simp
qed

lemma prefetchResources_results:
  "length (fst (prefetchResources net us st)) = length us \<and>
   (\<forall>i<length us.
      fst (prefetchResources net us st) ! i =
        (case fst (cache_add net DYNAMIC_CACHE (us ! i) st') of
           Inr _ \<Rightarrow> \<lparr>result_url = us ! i, success = True, error_message = None\<rparr>
         | Inl reason \<Rightarrow>
             \<lparr>result_url = us ! i, success = False, error_message = Some (message reason)\<rparr>))"
proof -
  obtain results st1 where a:
    "add_each net DYNAMIC_CACHE us (caches_open DYNAMIC_CACHE st) = (results, st1)"
    by (cases "add_each net DYNAMIC_CACHE us (caches_open DYNAMIC_CACHE st)")
  have r: "results = map (\<lambda>u. fst (cache_add net DYNAMIC_CACHE u st')) us"
    using add_each_fst [of net DYNAMIC_CACHE us "caches_open DYNAMIC_CACHE st" st'] a by simp
  then have len: "length results = length us" by simp
  show ?thesis
    using len by (auto simp: prefetchResources_def a r split: sum.splits)
qed

text \<open>
  Claim C9. For a \<open>PREFETCH_RESOURCES\<close> message whose payload carries a list of URLs,
  the message listener posts exactly one message on the port, a \<open>PREFETCH_COMPLETE\<close>
  with a list of result records: one record for each URL, in the order of the list. The
  record at position \<open>i\<close> carries the URL at position \<open>i\<close>, with \<open>success\<close> true
  and \<open>error\<close> \<open>null\<close> when \<open>cache.add\<close> of that URL is fulfilled, and with
  \<open>success\<close> false and the message of the failure as \<open>error\<close> when it is rejected.
  (The settlement of \<open>cache.add\<close> does not depend on the state it starts from,
  \<open>st'\<close> here.)
\<close>

theorem prefetch_reply_results:
  assumes "msg_type data = ''PREFETCH_RESOURCES''"
    and "msg_payload data = Some p"
    and "urls p = Some us"
  shows "\<exists>results.
    fst (message_listener net data st) = [PREFETCH_COMPLETE results] \<and>
    length results = length us \<and>
    (\<forall>i<length us.
       results ! i =
         (case fst (cache_add net DYNAMIC_CACHE (us ! i) st') of
            Inr _ \<Rightarrow> \<lparr>result_url = us ! i, success = True, error_message = None\<rparr>
          | Inl reason \<Rightarrow>
              \<lparr>result_url = us ! i, success = False, error_message = Some (message reason)\<rparr>))"
proof -
  have t: "msg_type data \<noteq> ''GET_METRICS''" "msg_type data \<noteq> ''CLEAR_CACHE''"
    using assms(1) by simp_all
  have "fst (message_listener net data st) =
      [PREFETCH_COMPLETE (fst (prefetchResources net us st))]"
    using assms t by (simp add: message_listener_def split: prod.splits)
  with prefetchResources_results [of net us st st'] show ?thesis by blast
qed

theorem prefetch_reply_results_witness:
  "fst (message_listener network_a_png
     \<lparr>msg_type = ''PREFETCH_RESOURCES'',
      msg_payload = Some \<lparr>urls = Some [''/a.png'', ''/bad-url'']\<rparr>\<rparr> fresh_state) =
     [PREFETCH_COMPLETE
       [\<lparr>result_url = ''/a.png'', success = True, error_message = None\<rparr>,
        \<lparr>result_url = ''/bad-url'', success = False,
         error_message = Some ''Failed to fetch''\<rparr>]]"
proof -
  let ?data = "\<lparr>msg_type = ''PREFETCH_RESOURCES'',
    msg_payload = Some \<lparr>urls = Some [''/a.png'', ''/bad-url'']\<rparr>\<rparr>"
  have a: "msg_type ?data = ''PREFETCH_RESOURCES''" by simp
  have b: "msg_payload ?data = Some \<lparr>urls = Some [''/a.png'', ''/bad-url'']\<rparr>" by simp
  have c: "urls \<lparr>urls = Some [''/a.png'', ''/bad-url'']\<rparr> = Some [''/a.png'', ''/bad-url'']"
    by simp
  have good: "fst (cache_add network_a_png DYNAMIC_CACHE ''/a.png'' fresh_state) = Inr ()"
    by (simp add: cache_add_def Let_def fetch_def network_a_png_def ok_def response_200_def
        response_storable_def vary_any_def headers_get_def)
  have bad: "fst (cache_add network_a_png DYNAMIC_CACHE ''/bad-url'' fresh_state) =
      Inl (TypeError ''Failed to fetch'')"
    by (simp add: cache_add_def Let_def fetch_def network_a_png_def)
  from prefetch_reply_results [OF a b c, of network_a_png fresh_state fresh_state]
  obtain results where
    reply: "fst (message_listener network_a_png ?data fresh_state) = [PREFETCH_COMPLETE results]"
    and len: "length results = length [''/a.png'', ''/bad-url'']"
    and each: "\<forall>i<length [''/a.png'', ''/bad-url''].
      results ! i =
        (case fst (cache_add network_a_png DYNAMIC_CACHE ([''/a.png'', ''/bad-url''] ! i)
                     fresh_state) of
           Inr _ \<Rightarrow>
             \<lparr>result_url = [''/a.png'', ''/bad-url''] ! i, success = True, error_message = None\<rparr>
         | Inl reason \<Rightarrow>
             \<lparr>result_url = [''/a.png'', ''/bad-url''] ! i, success = False,
              error_message = Some (message reason)\<rparr>)"
    by blast
  have r0: "results ! 0 = \<lparr>result_url = ''/a.png'', success = True, error_message = None\<rparr>"
    using each [rule_format, of 0] good by simp
  have r1: "results ! 1 =
      \<lparr>result_url = ''/bad-url'', success = False, error_message = Some ''Failed to fetch''\<rparr>"
    using each [rule_format, of 1] bad by simp
  have two: "xs = [xs ! 0, xs ! 1]" if "length xs = 2" for xs :: "prefetch_result list"
    using that by (cases xs; cases "tl xs") auto
  from len have "length results = 2" by simp
  from two [OF this] r0 r1 have "results =
      [\<lparr>result_url = ''/a.png'', success = True, error_message = None\<rparr>,
       \<lparr>result_url = ''/bad-url'', success = False, error_message = Some ''Failed to fetch''\<rparr>]"
    by simp
  with reply show ?thesis by simp
qed

text \<open>
  Claim C10. For a \<open>PREFETCH_RESOURCES\<close> message with no payload, or with a payload that
  has no \<open>urls\<close> field, the message listener posts nothing on the port (no
  \<open>PREFETCH_COMPLETE\<close> and no error reply) and leaves the state as it was.
\<close>

theorem prefetch_without_urls_posts_nothing:
  assumes "msg_type data = ''PREFETCH_RESOURCES''"
    and "msg_payload data = None \<or> (\<exists>p. msg_payload data = Some p \<and> urls p = None)"
  shows "message_listener net data st = ([], st)"
  using assms by (auto simp: message_listener_def)

theorem prefetch_without_urls_posts_nothing_witness:
  "message_listener network_up \<lparr>msg_type = ''PREFETCH_RESOURCES'', msg_payload = None\<rparr>
     fresh_state = ([], fresh_state) \<and>
   message_listener network_up
     \<lparr>msg_type = ''PREFETCH_RESOURCES'', msg_payload = Some \<lparr>urls = None\<rparr>\<rparr>
     fresh_state = ([], fresh_state)"
proof -
  have a: "msg_type \<lparr>msg_type = ''PREFETCH_RESOURCES'', msg_payload = None\<rparr> =
      ''PREFETCH_RESOURCES''"
    by simp
  have b: "msg_payload \<lparr>msg_type = ''PREFETCH_RESOURCES'', msg_payload = None\<rparr> = None \<or>
      (\<exists>p. msg_payload \<lparr>msg_type = ''PREFETCH_RESOURCES'', msg_payload = None\<rparr> = Some p \<and>
           urls p = None)"
    by simp
  have c: "msg_type \<lparr>msg_type = ''PREFETCH_RESOURCES'', msg_payload = Some \<lparr>urls = None\<rparr>\<rparr> =
      ''PREFETCH_RESOURCES''"
    by simp
  have d: "msg_payload \<lparr>msg_type = ''PREFETCH_RESOURCES'', msg_payload = Some \<lparr>urls = None\<rparr>\<rparr> =
        None \<or>
      (\<exists>p. msg_payload \<lparr>msg_type = ''PREFETCH_RESOURCES'', msg_payload = Some \<lparr>urls = None\<rparr>\<rparr> =
             Some p \<and> urls p = None)"
    by simp
  from prefetch_without_urls_posts_nothing [OF a b, of network_up fresh_state]
    prefetch_without_urls_posts_nothing [OF c d, of network_up fresh_state]
  show ?thesis by blast
qed

end
